theory Spec2Isabelle
  imports Main
begin

section \<open>Values, responses and effects\<close>

text \<open>
  The sync widgets are React components written in TypeScript. What they read from the
  form store and from HTTP responses is untyped at run time, so the model keeps the
  values of the host language: truthiness, strict equality and property access are the
  ones the source relies on (\<^verbatim>\<open>if (res.data)\<close>, \<^verbatim>\<open>syncType === 'outlook'\<close>,
  \<^verbatim>\<open>res.data?.is_syncing\<close>). Numbers are integers: only their being zero is observed.
\<close>

datatype jsval =
    JUndefined
  | JNull
  | JBool bool
  | JNum int
  | JStr string
  | JObj "(string \<times> jsval) list"

fun truthy :: "jsval \<Rightarrow> bool" where
  "truthy JUndefined = False"
| "truthy JNull = False"
| "truthy (JBool b) = b"
| "truthy (JNum n) = (n \<noteq> 0)"
| "truthy (JStr s) = (s \<noteq> [])"
| "truthy (JObj kvs) = True"

text \<open>
  \<^verbatim>\<open>v?.k\<close>: undefined on null and undefined, the property on an object, undefined on a
  primitive (none of the keys read here is a property of a primitive). Where the source
  reads \<^verbatim>\<open>res.data.sync_type\<close> without the question mark, \<^verbatim>\<open>res.data?.is_syncing\<close> has
  just been found truthy, so \<^verbatim>\<open>res.data\<close> is an object and both forms agree.
\<close>

fun getProp :: "jsval \<Rightarrow> string \<Rightarrow> jsval" where
  "getProp (JObj kvs) k = (case map_of kvs k of None \<Rightarrow> JUndefined | Some v \<Rightarrow> v)"
| "getProp JUndefined k = JUndefined"
| "getProp JNull k = JUndefined"
| "getProp (JBool b) k = JUndefined"
| "getProp (JNum n) k = JUndefined"
| "getProp (JStr s) k = JUndefined"

text \<open>The response envelope \<^verbatim>\<open>{ data, message }\<close> of the request layer.\<close>

record response =
  data :: jsval
  message :: jsval

text \<open>
  What \<^verbatim>\<open>await request(...)\<close> does: it resolves to an envelope, or it throws. Of the
  thrown error the source reads only \<^verbatim>\<open>error?.response?.status\<close>; \<open>None\<close> is an error
  without a response (a network failure, or any other exception inside the \<^verbatim>\<open>try\<close>).
\<close>

datatype outcome = Resolved response | Rejected "nat option"

datatype http_request =
    GET string
  | POST string "(string \<times> jsval) list"

text \<open>
  User-visible texts are either a translation key (\<^verbatim>\<open>t('syncFailed')\<close>) or a value that
  came from the backend (\<^verbatim>\<open>res.message\<close>).
\<close>

datatype msg = T string | Backend jsval

datatype level = Success | Error

datatype console = ConsoleLog | ConsoleError

text \<open>
  A callback handed to \<^verbatim>\<open>setTimeout\<close>. It closes over the \<^verbatim>\<open>kbId\<close> of the render that
  created it and, in the widget that passes parameters, over the email read at that
  moment.
\<close>

datatype callback =
    OneDriveTrigger "string option" jsval
  | OneDriveAltTrigger "string option"

text \<open>
  Everything an operation does besides updating component state, in the order it does it:
  an HTTP request, a notification (\<^verbatim>\<open>message.success\<close>, \<^verbatim>\<open>message.error\<close>), a line on the
  console (its text is not kept), the blocking \<^verbatim>\<open>window.confirm\<close> prompt, a timer.
\<close>

datatype effect =
    Request http_request
  | Notify level msg
  | Console console
  | Confirm msg
  | SetTimeout nat callback

fun isRequest :: "effect \<Rightarrow> bool" where
  "isRequest (Request r) = True"
| "isRequest (Notify l m) = False"
| "isRequest (Console c) = False"
| "isRequest (Confirm m) = False"
| "isRequest (SetTimeout d c) = False"

fun isNotify :: "effect \<Rightarrow> bool" where
  "isNotify (Request r) = False"
| "isNotify (Notify l m) = True"
| "isNotify (Console c) = False"
| "isNotify (Confirm m) = False"
| "isNotify (SetTimeout d c) = False"

fun isConfirm :: "effect \<Rightarrow> bool" where
  "isConfirm (Request r) = False"
| "isConfirm (Notify l m) = False"
| "isConfirm (Console c) = False"
| "isConfirm (Confirm m) = True"
| "isConfirm (SetTimeout d c) = False"

fun isTimeout :: "effect \<Rightarrow> bool" where
  "isTimeout (Request r) = False"
| "isTimeout (Notify l m) = False"
| "isTimeout (Console c) = False"
| "isTimeout (Confirm m) = False"
| "isTimeout (SetTimeout d c) = True"

fun isConsole :: "effect \<Rightarrow> bool" where
  "isConsole (Request r) = False"
| "isConsole (Notify l m) = False"
| "isConsole (Console c) = True"
| "isConsole (Confirm m) = False"
| "isConsole (SetTimeout d c) = False"

text \<open>The two pieces of component state: \<^verbatim>\<open>useState(false)\<close> and \<^verbatim>\<open>useState(null)\<close>.\<close>

record sync_state =
  syncing :: bool
  syncType :: jsval

definition initialState :: sync_state where
  "initialState = \<lparr>syncing = False, syncType = JNull\<rparr>"

text \<open>
  \<^verbatim>\<open>kbId\<close> comes from the URL (\<^verbatim>\<open>searchParams.get('id')\<close>, or \<^verbatim>\<open>useParams\<close>): a string
  or nothing. The guard \<^verbatim>\<open>!kbId\<close> holds for nothing and for the empty string.
\<close>

fun missing :: "string option \<Rightarrow> bool" where
  "missing None = True"
| "missing (Some s) = (s = [])"

fun kbStr :: "string option \<Rightarrow> string" where
  "kbStr None = []"
| "kbStr (Some s) = s"

text \<open>
  The \<^verbatim>\<open>parser_config\<close> part of the form store, and \<^verbatim>\<open>getFieldValue\<close>: undefined for a
  field that was never set.
\<close>

type_synonym form = "string \<rightharpoonup> jsval"

definition getFieldValue :: "form \<Rightarrow> string \<Rightarrow> jsval" where
  "getFieldValue f k = (case f k of None \<Rightarrow> JUndefined | Some v \<Rightarrow> v)"

section \<open>The mail-folder widget: OutlookMailSync\<close>

text \<open>
  The component of \<^verbatim>\<open>unnamed/part_000\<close>. (The \<^verbatim>\<open>OutlookMailSync\<close> that opens
  \<^verbatim>\<open>components/outlook-mail-sync.tsx\<close> is a plain form section: a switch and two inputs
  with the same rules, no state, no request and no handler, so it has no operation to
  model.)
\<close>

definition Outlook_checkSyncStatus ::
  "string option \<Rightarrow> outcome \<Rightarrow> sync_state \<Rightarrow> sync_state \<times> effect list" where
  "Outlook_checkSyncStatus kbId out st =
     (if missing kbId then (st, [Console ConsoleLog])
      else
        (case out of
           Resolved res \<Rightarrow>
             (if truthy (getProp (data res) ''is_syncing'')
              then \<lparr>syncing = True, syncType = getProp (data res) ''sync_type''\<rparr>
              else \<lparr>syncing = False, syncType = JNull\<rparr>,
              [Request (GET (''/v1/api/kb/sync_status?kb_id='' @ kbStr kbId))])
         | Rejected status \<Rightarrow>
             (if status = Some 404
              then \<lparr>syncing = False, syncType = JNull\<rparr>
              else st,
              [Request (GET (''/v1/api/kb/sync_status?kb_id='' @ kbStr kbId)),
               Console ConsoleError])))"

definition Outlook_triggerSync ::
  "string option \<Rightarrow> jsval \<Rightarrow> jsval \<Rightarrow> outcome \<Rightarrow> sync_state \<Rightarrow> sync_state \<times> effect list" where
  "Outlook_triggerSync kbId email folder_name out st =
     (if missing kbId then (st, [Console ConsoleError])
      else
        (case out of
           Resolved res \<Rightarrow>
             (if truthy (data res)
              then (\<lparr>syncing = True, syncType = JStr ''outlook''\<rparr>,
                    [Request (POST ''/v1/api/kb/trigger_sync''
                       [(''kb_id'', JStr (kbStr kbId)), (''sync_type'', JStr ''outlook''),
                        (''email'', email), (''folder_name'', folder_name)]),
                     Notify Success (T ''syncStarted'')])
              else (st,
                    [Request (POST ''/v1/api/kb/trigger_sync''
                       [(''kb_id'', JStr (kbStr kbId)), (''sync_type'', JStr ''outlook''),
                        (''email'', email), (''folder_name'', folder_name)]),
                     Notify Error
                       (if truthy (message res) then Backend (message res) else T ''syncFailed'')]))
         | Rejected status \<Rightarrow>
             (st,
              [Request (POST ''/v1/api/kb/trigger_sync''
                 [(''kb_id'', JStr (kbStr kbId)), (''sync_type'', JStr ''outlook''),
                  (''email'', email), (''folder_name'', folder_name)]),
               Console ConsoleError,
               Notify Error (T ''syncFailed'')])))"

definition Outlook_cancelSync ::
  "string option \<Rightarrow> outcome \<Rightarrow> sync_state \<Rightarrow> sync_state \<times> effect list" where
  "Outlook_cancelSync kbId out st =
     (if missing kbId then (st, [])
      else
        (case out of
           Resolved res \<Rightarrow>
             (st,
              [Request (POST ''/v1/api/kb/cancel_sync'' [(''kb_id'', JStr (kbStr kbId))]),
               if truthy (data res)
               then Notify Success (T ''syncCancelled'')
               else Notify Error
                      (if truthy (message res) then Backend (message res) else T ''cancelFailed'')])
         | Rejected status \<Rightarrow>
             (st,
              [Request (POST ''/v1/api/kb/cancel_sync'' [(''kb_id'', JStr (kbStr kbId))]),
               Console ConsoleError,
               Notify Error (T ''cancelFailed'')])))"

text \<open>
  \<^verbatim>\<open>handleSyncChange(checked)\<close>, the switch's \<^verbatim>\<open>onChange\<close>. \<open>answer\<close> is what the user
  replies to \<^verbatim>\<open>window.confirm\<close>, \<open>out\<close> the outcome of the cancel request should one be
  sent. Declining writes \<^verbatim>\<open>outlook_sync_enabled: true\<close> back into the form store.
\<close>

definition Outlook_handleSyncChange ::
  "string option \<Rightarrow> sync_state \<Rightarrow> form \<Rightarrow> bool \<Rightarrow> bool \<Rightarrow> outcome
     \<Rightarrow> sync_state \<times> form \<times> effect list" where
  "Outlook_handleSyncChange kbId st f checked answer out =
     (if \<not> checked \<and> syncing st \<and> syncType st = JStr ''outlook''
      then
        (if answer
         then (fst (Outlook_cancelSync kbId out st), f,
               Confirm (T ''confirmCancelSync'') # snd (Outlook_cancelSync kbId out st))
         else (st, f(''outlook_sync_enabled'' \<mapsto> JBool True),
               [Confirm (T ''confirmCancelSync'')]))
      else (st, f, []))"


text \<open>
  What the widget renders: the spinner beside the label, the provider's input fields, and
  the one action button below them.
\<close>

datatype action = CancelButton | SyncNowButton

record view =
  spinner :: bool
  inputs :: bool
  button :: "action option"

definition Outlook_render :: "sync_state \<Rightarrow> form \<Rightarrow> view" where
  "Outlook_render st f =
     \<lparr>spinner = (syncing st \<and> syncType st = JStr ''outlook''),
      inputs = truthy (getFieldValue f ''outlook_sync_enabled''),
      button =
        (if truthy (getFieldValue f ''outlook_sync_enabled'')
         then Some (if syncing st \<and> syncType st = JStr ''outlook''
                    then CancelButton else SyncNowButton)
         else None)\<rparr>"

section \<open>The cloud-drive widget: OneDriveSync\<close>

text \<open>
  The widget of \<^verbatim>\<open>components/outlook-mail-sync.tsx\<close> (second document). Its status check has
  no branch for status 404, it writes more to the console, and its switch handler arms a
  one-second timer when the switch goes from off to on with an email in the form.
\<close>

definition OneDrive_checkSyncStatus ::
  "string option \<Rightarrow> outcome \<Rightarrow> sync_state \<Rightarrow> sync_state \<times> effect list" where
  "OneDrive_checkSyncStatus kbId out st =
     (if missing kbId then (st, [Console ConsoleLog])
      else
        (case out of
           Resolved res \<Rightarrow>
             (if truthy (getProp (data res) ''is_syncing'')
              then \<lparr>syncing = True, syncType = getProp (data res) ''sync_type''\<rparr>
              else \<lparr>syncing = False, syncType = JNull\<rparr>,
              [Request (GET (''/v1/api/kb/sync_status?kb_id='' @ kbStr kbId)),
               Console ConsoleLog])
         | Rejected status \<Rightarrow>
             (st,
              [Request (GET (''/v1/api/kb/sync_status?kb_id='' @ kbStr kbId)),
               Console ConsoleError])))"

definition OneDrive_triggerSync ::
  "string option \<Rightarrow> jsval \<Rightarrow> jsval \<Rightarrow> outcome \<Rightarrow> sync_state \<Rightarrow> sync_state \<times> effect list" where
  "OneDrive_triggerSync kbId email folder_path out st =
     (if missing kbId then (st, [Console ConsoleLog, Console ConsoleLog])
      else
        (case out of
           Resolved res \<Rightarrow>
             (if truthy (data res)
              then (\<lparr>syncing = True, syncType = JStr ''onedrive''\<rparr>,
                    [Console ConsoleLog,
                     Request (POST ''/v1/api/kb/trigger_sync''
                       [(''kb_id'', JStr (kbStr kbId)), (''sync_type'', JStr ''onedrive''),
                        (''email'', email), (''folder_path'', folder_path)]),
                     Notify Success (T ''syncStarted'')])
              else (st,
                    [Console ConsoleLog,
                     Request (POST ''/v1/api/kb/trigger_sync''
                       [(''kb_id'', JStr (kbStr kbId)), (''sync_type'', JStr ''onedrive''),
                        (''email'', email), (''folder_path'', folder_path)]),
                     Notify Error
                       (if truthy (message res) then Backend (message res) else T ''syncFailed'')]))
         | Rejected status \<Rightarrow>
             (st,
              [Console ConsoleLog,
               Request (POST ''/v1/api/kb/trigger_sync''
                 [(''kb_id'', JStr (kbStr kbId)), (''sync_type'', JStr ''onedrive''),
                  (''email'', email), (''folder_path'', folder_path)]),
               Console ConsoleError,
               Notify Error (T ''syncFailed'')])))"

definition OneDrive_cancelSync ::
  "string option \<Rightarrow> outcome \<Rightarrow> sync_state \<Rightarrow> sync_state \<times> effect list" where
  "OneDrive_cancelSync kbId out st =
     (if missing kbId then (st, [])
      else
        (case out of
           Resolved res \<Rightarrow>
             (st,
              [Request (POST ''/v1/api/kb/cancel_sync'' [(''kb_id'', JStr (kbStr kbId))]),
               if truthy (data res)
               then Notify Success (T ''syncCancelled'')
               else Notify Error
                      (if truthy (message res) then Backend (message res) else T ''cancelFailed'')])
         | Rejected status \<Rightarrow>
             (st,
              [Request (POST ''/v1/api/kb/cancel_sync'' [(''kb_id'', JStr (kbStr kbId))]),
               Console ConsoleError,
               Notify Error (T ''cancelFailed'')])))"

text \<open>
  \<open>syncEnabled\<close> is the switch value the handler's closure saw when the widget was last
  rendered, \<open>f\<close> the form store when the handler runs. The second \<^verbatim>\<open>if\<close> of the source is
  \<open>later\<close>: it is reached unless the user declined the prompt.
\<close>

definition OneDrive_handleSyncChange ::
  "string option \<Rightarrow> sync_state \<Rightarrow> form \<Rightarrow> jsval \<Rightarrow> bool \<Rightarrow> bool \<Rightarrow> outcome
     \<Rightarrow> sync_state \<times> form \<times> effect list" where
  "OneDrive_handleSyncChange kbId st f syncEnabled checked answer out =
     (let later =
        (if checked \<and> \<not> truthy syncEnabled
         then (if truthy (getFieldValue f ''onedrive_email'')
               then [SetTimeout 1000
                       (OneDriveTrigger kbId (getFieldValue f ''onedrive_email''))]
               else [])
         else [])
      in
        if \<not> checked \<and> syncing st \<and> syncType st = JStr ''onedrive''
        then
          (if answer
           then (fst (OneDrive_cancelSync kbId out st), f,
                 Confirm (T ''confirmCancelSync'') # snd (OneDrive_cancelSync kbId out st) @ later)
           else (st, f(''onedrive_sync_enabled'' \<mapsto> JBool True),
                 [Confirm (T ''confirmCancelSync'')]))
        else (st, f, later))"


definition OneDrive_render :: "sync_state \<Rightarrow> form \<Rightarrow> view" where
  "OneDrive_render st f =
     \<lparr>spinner = (syncing st \<and> syncType st = JStr ''onedrive''),
      inputs = truthy (getFieldValue f ''onedrive_sync_enabled''),
      button =
        (if truthy (getFieldValue f ''onedrive_sync_enabled'')
         then Some (if syncing st \<and> syncType st = JStr ''onedrive''
                    then CancelButton else SyncNowButton)
         else None)\<rparr>"

section \<open>The other revision of the cloud-drive widget\<close>

text \<open>
  The \<^verbatim>\<open>OneDriveSync\<close> of \<^verbatim>\<open>unnamed/part_001\<close>: the endpoints have no \<^verbatim>\<open>/v1\<close> prefix, the
  trigger takes no parameters and sends \<^verbatim>\<open>kb_id\<close> and \<^verbatim>\<open>sync_type\<close> only, and a missing
  \<^verbatim>\<open>kbId\<close> is not logged.
\<close>

definition OneDriveAlt_checkSyncStatus ::
  "string option \<Rightarrow> outcome \<Rightarrow> sync_state \<Rightarrow> sync_state \<times> effect list" where
  "OneDriveAlt_checkSyncStatus kbId out st =
     (if missing kbId then (st, [])
      else
        (case out of
           Resolved res \<Rightarrow>
             (if truthy (getProp (data res) ''is_syncing'')
              then \<lparr>syncing = True, syncType = getProp (data res) ''sync_type''\<rparr>
              else \<lparr>syncing = False, syncType = JNull\<rparr>,
              [Request (GET (''/api/kb/sync_status?kb_id='' @ kbStr kbId))])
         | Rejected status \<Rightarrow>
             (st,
              [Request (GET (''/api/kb/sync_status?kb_id='' @ kbStr kbId)),
               Console ConsoleError])))"

definition OneDriveAlt_triggerSync ::
  "string option \<Rightarrow> outcome \<Rightarrow> sync_state \<Rightarrow> sync_state \<times> effect list" where
  "OneDriveAlt_triggerSync kbId out st =
     (if missing kbId then (st, [])
      else
        (case out of
           Resolved res \<Rightarrow>
             (if truthy (data res)
              then (\<lparr>syncing = True, syncType = JStr ''onedrive''\<rparr>,
                    [Request (POST ''/api/kb/trigger_sync''
                       [(''kb_id'', JStr (kbStr kbId)), (''sync_type'', JStr ''onedrive'')]),
                     Notify Success (T ''syncStarted'')])
              else (st,
                    [Request (POST ''/api/kb/trigger_sync''
                       [(''kb_id'', JStr (kbStr kbId)), (''sync_type'', JStr ''onedrive'')]),
                     Notify Error
                       (if truthy (message res) then Backend (message res) else T ''syncFailed'')]))
         | Rejected status \<Rightarrow>
             (st,
              [Request (POST ''/api/kb/trigger_sync''
                 [(''kb_id'', JStr (kbStr kbId)), (''sync_type'', JStr ''onedrive'')]),
               Console ConsoleError,
               Notify Error (T ''syncFailed'')])))"

definition OneDriveAlt_cancelSync ::
  "string option \<Rightarrow> outcome \<Rightarrow> sync_state \<Rightarrow> sync_state \<times> effect list" where
  "OneDriveAlt_cancelSync kbId out st =
     (if missing kbId then (st, [])
      else
        (case out of
           Resolved res \<Rightarrow>
             (st,
              [Request (POST ''/api/kb/cancel_sync'' [(''kb_id'', JStr (kbStr kbId))]),
               if truthy (data res)
               then Notify Success (T ''syncCancelled'')
               else Notify Error
                      (if truthy (message res) then Backend (message res) else T ''cancelFailed'')])
         | Rejected status \<Rightarrow>
             (st,
              [Request (POST ''/api/kb/cancel_sync'' [(''kb_id'', JStr (kbStr kbId))]),
               Console ConsoleError,
               Notify Error (T ''cancelFailed'')])))"

definition OneDriveAlt_handleSyncChange ::
  "string option \<Rightarrow> sync_state \<Rightarrow> form \<Rightarrow> jsval \<Rightarrow> bool \<Rightarrow> bool \<Rightarrow> outcome
     \<Rightarrow> sync_state \<times> form \<times> effect list" where
  "OneDriveAlt_handleSyncChange kbId st f syncEnabled checked answer out =
     (let later =
        (if checked \<and> \<not> truthy syncEnabled
         then (if truthy (getFieldValue f ''onedrive_email'')
               then [SetTimeout 1000 (OneDriveAltTrigger kbId)]
               else [])
         else [])
      in
        if \<not> checked \<and> syncing st \<and> syncType st = JStr ''onedrive''
        then
          (if answer
           then (fst (OneDriveAlt_cancelSync kbId out st), f,
                 Confirm (T ''confirmCancelSync'') #
                 snd (OneDriveAlt_cancelSync kbId out st) @ later)
           else (st, f(''onedrive_sync_enabled'' \<mapsto> JBool True),
                 [Confirm (T ''confirmCancelSync'')]))
        else (st, f, later))"


definition OneDriveAlt_render :: "sync_state \<Rightarrow> form \<Rightarrow> view" where
  "OneDriveAlt_render st f =
     \<lparr>spinner = (syncing st \<and> syncType st = JStr ''onedrive''),
      inputs = truthy (getFieldValue f ''onedrive_sync_enabled''),
      button =
        (if truthy (getFieldValue f ''onedrive_sync_enabled'')
         then Some (if syncing st \<and> syncType st = JStr ''onedrive''
                    then CancelButton else SyncNowButton)
         else None)\<rparr>"


section \<open>The widgets side by side\<close>

text \<open>
  The three components are separate copies in the source. The functions below select a
  copy, so that a statement about every widget is one statement.
\<close>

datatype widget = OutlookMailSync | OneDriveSync | OneDriveSyncAlt

fun providerTag :: "widget \<Rightarrow> string" where
  "providerTag OutlookMailSync = ''outlook''"
| "providerTag OneDriveSync = ''onedrive''"
| "providerTag OneDriveSyncAlt = ''onedrive''"

fun enabledField :: "widget \<Rightarrow> string" where
  "enabledField OutlookMailSync = ''outlook_sync_enabled''"
| "enabledField OneDriveSync = ''onedrive_sync_enabled''"
| "enabledField OneDriveSyncAlt = ''onedrive_sync_enabled''"


fun triggerUrl :: "widget \<Rightarrow> string" where
  "triggerUrl OutlookMailSync = ''/v1/api/kb/trigger_sync''"
| "triggerUrl OneDriveSync = ''/v1/api/kb/trigger_sync''"
| "triggerUrl OneDriveSyncAlt = ''/api/kb/trigger_sync''"

fun cancelUrl :: "widget \<Rightarrow> string" where
  "cancelUrl OutlookMailSync = ''/v1/api/kb/cancel_sync''"
| "cancelUrl OneDriveSync = ''/v1/api/kb/cancel_sync''"
| "cancelUrl OneDriveSyncAlt = ''/api/kb/cancel_sync''"

fun checkSyncStatus ::
  "widget \<Rightarrow> string option \<Rightarrow> outcome \<Rightarrow> sync_state \<Rightarrow> sync_state \<times> effect list" where
  "checkSyncStatus OutlookMailSync = Outlook_checkSyncStatus"
| "checkSyncStatus OneDriveSync = OneDrive_checkSyncStatus"
| "checkSyncStatus OneDriveSyncAlt = OneDriveAlt_checkSyncStatus"

text \<open>
  A call with an email and a folder; the widget whose trigger has no parameters drops
  them, as the host language does with surplus arguments.
\<close>

fun triggerSync ::
  "widget \<Rightarrow> string option \<Rightarrow> jsval \<Rightarrow> jsval \<Rightarrow> outcome \<Rightarrow> sync_state
     \<Rightarrow> sync_state \<times> effect list" where
  "triggerSync OutlookMailSync kbId email folder = Outlook_triggerSync kbId email folder"
| "triggerSync OneDriveSync kbId email folder = OneDrive_triggerSync kbId email folder"
| "triggerSync OneDriveSyncAlt kbId email folder = OneDriveAlt_triggerSync kbId"

fun cancelSync ::
  "widget \<Rightarrow> string option \<Rightarrow> outcome \<Rightarrow> sync_state \<Rightarrow> sync_state \<times> effect list" where
  "cancelSync OutlookMailSync = Outlook_cancelSync"
| "cancelSync OneDriveSync = OneDrive_cancelSync"
| "cancelSync OneDriveSyncAlt = OneDriveAlt_cancelSync"

fun handleSyncChange ::
  "widget \<Rightarrow> string option \<Rightarrow> sync_state \<Rightarrow> form \<Rightarrow> jsval \<Rightarrow> bool \<Rightarrow> bool \<Rightarrow> outcome
     \<Rightarrow> sync_state \<times> form \<times> effect list" where
  "handleSyncChange OutlookMailSync kbId st f syncEnabled =
     Outlook_handleSyncChange kbId st f"
| "handleSyncChange OneDriveSync kbId st f syncEnabled =
     OneDrive_handleSyncChange kbId st f syncEnabled"
| "handleSyncChange OneDriveSyncAlt kbId st f syncEnabled =
     OneDriveAlt_handleSyncChange kbId st f syncEnabled"


fun render :: "widget \<Rightarrow> sync_state \<Rightarrow> form \<Rightarrow> view" where
  "render OutlookMailSync = Outlook_render"
| "render OneDriveSync = OneDrive_render"
| "render OneDriveSyncAlt = OneDriveAlt_render"

definition requests :: "effect list \<Rightarrow> effect list" where
  "requests es = filter isRequest es"

definition notifications :: "effect list \<Rightarrow> effect list" where
  "notifications es = filter isNotify es"

definition prompts :: "effect list \<Rightarrow> effect list" where
  "prompts es = filter isConfirm es"

definition timers :: "effect list \<Rightarrow> effect list" where
  "timers es = filter isTimeout es"

section \<open>Field rules\<close>

text \<open>
  The email and folder inputs carry \<^verbatim>\<open>rules\<close>: \<^verbatim>\<open>{type: 'email'}\<close> and
  \<^verbatim>\<open>{required: syncEnabled}\<close>. The form library evaluates them when the enclosing form is
  validated; it skips the type rule on an empty value.
\<close>

datatype rule = TypeEmail | Required jsval


fun folderRules :: "widget \<Rightarrow> jsval \<Rightarrow> rule list" where
  "folderRules OutlookMailSync syncEnabled = [Required syncEnabled]"
| "folderRules OneDriveSync syncEnabled = []"
| "folderRules OneDriveSyncAlt syncEnabled = []"





section \<open>The status poller\<close>

text \<open>
  \<^verbatim>\<open>useEffect(() => { if (!kbId) return; checkSyncStatus();
  const intervalId = setInterval(checkSyncStatus, 5000);
  return () => clearInterval(intervalId); }, [kbId])\<close>.

  The mounted component is its last \<^verbatim>\<open>kbId\<close>, the live interval timer (the \<^verbatim>\<open>kbId\<close> its
  callback closed over, and the milliseconds left until it fires next), the component
  state, everything done so far, and how many status checks have run. The outcome of the
  \<open>n\<close>-th status request is \<open>env n\<close>. Time passes one millisecond at a time.
\<close>

record poller =
  kb :: "string option"
  timer :: "(string option \<times> nat) option"
  state :: sync_state
  trace :: "effect list"
  checks :: nat










section \<open>Properties\<close>

lemmas op_defs =
  Outlook_checkSyncStatus_def Outlook_triggerSync_def Outlook_cancelSync_def
  OneDrive_checkSyncStatus_def OneDrive_triggerSync_def OneDrive_cancelSync_def
  OneDriveAlt_checkSyncStatus_def OneDriveAlt_triggerSync_def OneDriveAlt_cancelSync_def

lemmas handler_defs =
  Outlook_handleSyncChange_def OneDrive_handleSyncChange_def OneDriveAlt_handleSyncChange_def


lemmas render_defs = Outlook_render_def OneDrive_render_def OneDriveAlt_render_def

lemmas effect_defs = requests_def notifications_def prompts_def timers_def

subsection \<open>Operations without a knowledge-base id\<close>

text \<open>
  C7. With \<^verbatim>\<open>kbId\<close> null (or empty, which the guard treats alike), the status check, the
  trigger and the cancel of every widget leave the component state as it was and do
  nothing but, at most, write to the console: no request, no notification, no prompt.
\<close>

theorem missing_kb_is_silent:
  assumes "missing kbId"
  shows "fst (checkSyncStatus w kbId out st) = st
       \<and> list_all isConsole (snd (checkSyncStatus w kbId out st))
       \<and> requests (snd (checkSyncStatus w kbId out st)) = []
       \<and> fst (triggerSync w kbId email folder out st) = st
       \<and> list_all isConsole (snd (triggerSync w kbId email folder out st))
       \<and> requests (snd (triggerSync w kbId email folder out st)) = []
       \<and> fst (cancelSync w kbId out st) = st
       \<and> list_all isConsole (snd (cancelSync w kbId out st))
       \<and> requests (snd (cancelSync w kbId out st)) = []"
  using assms by (cases w) (simp_all add: op_defs requests_def)

theorem missing_kb_is_silent_witness:
  "missing None
   \<and> fst (checkSyncStatus OneDriveSync None (Rejected None) initialState) = initialState
   \<and> list_all isConsole (snd (checkSyncStatus OneDriveSync None (Rejected None) initialState))
   \<and> requests (snd (triggerSync OneDriveSync None (JStr ''a@b.com'') JUndefined
        (Rejected None) initialState)) = []
   \<and> list_all isConsole (snd (triggerSync OneDriveSync None (JStr ''a@b.com'') JUndefined
        (Rejected None) initialState))
   \<and> fst (cancelSync OneDriveSync None (Rejected None) initialState) = initialState
   \<and> requests (snd (cancelSync OneDriveSync None (Rejected None) initialState)) = []"
  using missing_kb_is_silent [of None OneDriveSync "Rejected None" initialState
      "JStr ''a@b.com''" JUndefined]
  by simp

subsection \<open>The status check\<close>


lemma status_success:
  "\<not> missing k \<Longrightarrow>
   fst (checkSyncStatus w k (Resolved res) st) =
     (if truthy (getProp (data res) ''is_syncing'')
      then \<lparr>syncing = True, syncType = getProp (data res) ''sync_type''\<rparr>
      else \<lparr>syncing = False, syncType = JNull\<rparr>)"
  by (cases w) (simp_all add: op_defs)

text \<open>
  In the mail-folder widget a 404 from the status endpoint means "not syncing", any other
  failure leaves the state alone, and neither is shown to the user.
\<close>

lemma Outlook_status_errors:
  assumes "\<not> missing kbId"
  shows "fst (checkSyncStatus OutlookMailSync kbId (Rejected status) st) =
           (if status = Some 404 then \<lparr>syncing = False, syncType = JNull\<rparr> else st)
       \<and> notifications (snd (checkSyncStatus OutlookMailSync kbId (Rejected status) st)) = []"
  using assms by (simp add: op_defs effect_defs)

text \<open>In every widget a failure other than 404 leaves the state alone, silently.\<close>

lemma status_errors_other_than_404:
  assumes "status \<noteq> Some 404"
  shows "fst (checkSyncStatus w kbId (Rejected status) st) = st
       \<and> notifications (snd (checkSyncStatus w kbId (Rejected status) st)) = []"
  using assms by (cases w) (simp_all add: op_defs effect_defs)

text \<open>
  C2. The claim wants a 404 to reset the state to \<^verbatim>\<open>{syncing: false, syncType: null}\<close> in
  every widget. The cloud-drive widget has no such branch in its \<^verbatim>\<open>catch\<close>: polling a
  knowledge base while it shows a sync in progress, a 404 leaves \<^verbatim>\<open>syncing\<close> true and
  \<^verbatim>\<open>syncType\<close> \<^verbatim>\<open>'onedrive'\<close>.
\<close>

theorem onedrive_status_404_keeps_state:
  "checkSyncStatus OneDriveSync (Some ''kb1'') (Rejected (Some 404))
     \<lparr>syncing = True, syncType = JStr ''onedrive''\<rparr> =
   (\<lparr>syncing = True, syncType = JStr ''onedrive''\<rparr>,
    [Request (GET ''/v1/api/kb/sync_status?kb_id=kb1''), Console ConsoleError])"
  by (simp add: op_defs)

text \<open>The other revision of the cloud-drive widget does the same.\<close>

lemma onedrive_alt_status_404_keeps_state:
  "checkSyncStatus OneDriveSyncAlt (Some ''kb1'') (Rejected (Some 404))
     \<lparr>syncing = True, syncType = JStr ''onedrive''\<rparr> =
   (\<lparr>syncing = True, syncType = JStr ''onedrive''\<rparr>,
    [Request (GET ''/api/kb/sync_status?kb_id=kb1''), Console ConsoleError])"
  by (simp add: op_defs)

subsection \<open>Trigger\<close>

text \<open>
  The body of the trigger request is not the same in every widget: the revision of the
  cloud-drive widget whose trigger has no parameters sends neither an email nor a folder,
  whatever the call is handed.
\<close>

theorem alt_trigger_body_has_no_email:
  "requests (snd (triggerSync OneDriveSyncAlt (Some ''kb1'') (JStr ''a@b.com'') (JStr ''Docs'')
       (Resolved \<lparr>data = JBool True, message = JUndefined\<rparr>) initialState)) =
   [Request (POST ''/api/kb/trigger_sync''
      [(''kb_id'', JStr ''kb1''), (''sync_type'', JStr ''onedrive'')])]"
  by (simp add: op_defs effect_defs)

text \<open>
  C3, amended. A trigger with \<^verbatim>\<open>kbId\<close> present issues exactly one POST. Its body is
  \<^verbatim>\<open>{kb_id, sync_type: 'outlook', email, folder_name}\<close> in the mail-folder widget,
  \<^verbatim>\<open>{kb_id, sync_type: 'onedrive', email, folder_path}\<close> in the cloud-drive widget, and
  \<^verbatim>\<open>{kb_id, sync_type: 'onedrive'}\<close> alone in the cloud-drive widget's other revision. A
  truthy \<^verbatim>\<open>res.data\<close> gives a success notification and the state \<^verbatim>\<open>syncing = true\<close>,
  \<^verbatim>\<open>syncType\<close> the widget's provider tag; a falsy one gives an error notification with the
  backend's message when it has one and the generic text otherwise; a thrown error gives
  the generic error notification; in both failures the state is as before.
\<close>

theorem trigger_contract:
  assumes "\<not> missing kbId"
  shows "requests (snd (triggerSync w kbId email folder out st)) =
           [Request (POST (triggerUrl w)
              (case w of
                 OutlookMailSync \<Rightarrow>
                   [(''kb_id'', JStr (kbStr kbId)), (''sync_type'', JStr ''outlook''),
                    (''email'', email), (''folder_name'', folder)]
               | OneDriveSync \<Rightarrow>
                   [(''kb_id'', JStr (kbStr kbId)), (''sync_type'', JStr ''onedrive''),
                    (''email'', email), (''folder_path'', folder)]
               | OneDriveSyncAlt \<Rightarrow>
                   [(''kb_id'', JStr (kbStr kbId)), (''sync_type'', JStr ''onedrive'')]))]
       \<and> fst (triggerSync w kbId email folder (Resolved res) st) =
           (if truthy (data res) then \<lparr>syncing = True, syncType = JStr (providerTag w)\<rparr> else st)
       \<and> notifications (snd (triggerSync w kbId email folder (Resolved res) st)) =
           [if truthy (data res) then Notify Success (T ''syncStarted'')
            else Notify Error
                   (if truthy (message res) then Backend (message res) else T ''syncFailed'')]
       \<and> fst (triggerSync w kbId email folder (Rejected status) st) = st
       \<and> notifications (snd (triggerSync w kbId email folder (Rejected status) st)) =
           [Notify Error (T ''syncFailed'')]"
  using assms
  by (cases w; cases out) (simp_all add: op_defs effect_defs)

theorem trigger_contract_witness:
  "\<not> missing (Some ''kb1'')
   \<and> requests (snd (triggerSync OutlookMailSync (Some ''kb1'') (JStr ''a@b.com'')
        (JStr ''Inbox'') (Resolved \<lparr>data = JBool True, message = JUndefined\<rparr>)
        initialState)) =
     [Request (POST ''/v1/api/kb/trigger_sync''
        [(''kb_id'', JStr ''kb1''), (''sync_type'', JStr ''outlook''),
         (''email'', JStr ''a@b.com''), (''folder_name'', JStr ''Inbox'')])]
   \<and> fst (triggerSync OutlookMailSync (Some ''kb1'') (JStr ''a@b.com'') (JStr ''Inbox'')
        (Resolved \<lparr>data = JBool True, message = JUndefined\<rparr>) initialState) =
     \<lparr>syncing = True, syncType = JStr ''outlook''\<rparr>
   \<and> notifications (snd (triggerSync OutlookMailSync (Some ''kb1'') (JStr ''a@b.com'')
        (JStr ''Inbox'') (Resolved \<lparr>data = JBool True, message = JUndefined\<rparr>)
        initialState)) =
     [Notify Success (T ''syncStarted'')]
   \<and> fst (triggerSync OutlookMailSync (Some ''kb1'') (JStr ''a@b.com'') (JStr ''Inbox'')
        (Rejected (Some 500)) initialState) = initialState
   \<and> notifications (snd (triggerSync OutlookMailSync (Some ''kb1'') (JStr ''a@b.com'')
        (JStr ''Inbox'') (Rejected (Some 500)) initialState)) =
     [Notify Error (T ''syncFailed'')]"
  using trigger_contract [of "Some ''kb1''" OutlookMailSync "JStr ''a@b.com''" "JStr ''Inbox''"
      "Resolved \<lparr>data = JBool True, message = JUndefined\<rparr>" initialState
      "\<lparr>data = JBool True, message = JUndefined\<rparr>" "Some 500"]
  by simp




subsection \<open>Cancel\<close>

text \<open>
  C5. A cancel with \<^verbatim>\<open>kbId\<close> present issues one POST and never touches \<^verbatim>\<open>syncing\<close> or
  \<^verbatim>\<open>syncType\<close>: a truthy \<^verbatim>\<open>res.data\<close> shows the confirmation, a falsy one or a thrown error
  shows an error notification, and the state is the prior one in every case.
\<close>

theorem cancel_frame:
  assumes "\<not> missing kbId"
  shows "fst (cancelSync w kbId out st) = st
       \<and> requests (snd (cancelSync w kbId out st)) =
           [Request (POST (cancelUrl w) [(''kb_id'', JStr (kbStr kbId))])]
       \<and> notifications (snd (cancelSync w kbId (Resolved res) st)) =
           [if truthy (data res) then Notify Success (T ''syncCancelled'')
            else Notify Error
                   (if truthy (message res) then Backend (message res) else T ''cancelFailed'')]
       \<and> notifications (snd (cancelSync w kbId (Rejected status) st)) =
           [Notify Error (T ''cancelFailed'')]"
  using assms
  by (cases w; cases out) (simp_all add: op_defs effect_defs)

theorem cancel_frame_witness:
  "\<not> missing (Some ''kb1'')
   \<and> fst (cancelSync OutlookMailSync (Some ''kb1'')
        (Resolved \<lparr>data = JBool True, message = JUndefined\<rparr>)
        \<lparr>syncing = True, syncType = JStr ''outlook''\<rparr>) =
     \<lparr>syncing = True, syncType = JStr ''outlook''\<rparr>
   \<and> requests (snd (cancelSync OutlookMailSync (Some ''kb1'')
        (Resolved \<lparr>data = JBool True, message = JUndefined\<rparr>)
        \<lparr>syncing = True, syncType = JStr ''outlook''\<rparr>)) =
     [Request (POST ''/v1/api/kb/cancel_sync'' [(''kb_id'', JStr ''kb1'')])]
   \<and> notifications (snd (cancelSync OutlookMailSync (Some ''kb1'')
        (Resolved \<lparr>data = JBool True, message = JUndefined\<rparr>)
        \<lparr>syncing = True, syncType = JStr ''outlook''\<rparr>)) =
     [Notify Success (T ''syncCancelled'')]
   \<and> notifications (snd (cancelSync OutlookMailSync (Some ''kb1'') (Rejected None)
        \<lparr>syncing = True, syncType = JStr ''outlook''\<rparr>)) =
     [Notify Error (T ''cancelFailed'')]"
  using cancel_frame [of "Some ''kb1''" OutlookMailSync
      "Resolved \<lparr>data = JBool True, message = JUndefined\<rparr>"
      "\<lparr>syncing = True, syncType = JStr ''outlook''\<rparr>"
      "\<lparr>data = JBool True, message = JUndefined\<rparr>" None]
  by simp

subsection \<open>The switch\<close>

text \<open>
  The cancel operation is guarded by \<^verbatim>\<open>kbId\<close> like the others. A widget that still shows
  a sync of its own after the id has gone from the URL asks for confirmation as usual, and
  an accepted prompt then sends nothing.
\<close>

theorem accepted_prompt_without_kb_sends_nothing:
  "prompts (snd (snd (handleSyncChange OutlookMailSync None
       \<lparr>syncing = True, syncType = JStr ''outlook''\<rparr> (map_of []) (JBool True) False True
       (Resolved \<lparr>data = JBool True, message = JUndefined\<rparr>)))) =
     [Confirm (T ''confirmCancelSync'')]
   \<and> requests (snd (snd (handleSyncChange OutlookMailSync None
       \<lparr>syncing = True, syncType = JStr ''outlook''\<rparr> (map_of []) (JBool True) False True
       (Resolved \<lparr>data = JBool True, message = JUndefined\<rparr>)))) = []"
  by (simp add: op_defs handler_defs effect_defs)

text \<open>
  C4, amended. Switching off while \<^verbatim>\<open>syncing\<close> is true and \<^verbatim>\<open>syncType\<close> is the widget's own
  provider tag shows the confirmation prompt, once. Declined: the switch field is written
  back to true, nothing else happens, no request is sent. Accepted: the form is left
  alone and exactly one cancel request is sent when \<^verbatim>\<open>kbId\<close> is present, none when it is
  missing.
\<close>

theorem toggle_off_while_syncing:
  assumes "syncing st" and "syncType st = JStr (providerTag w)"
  shows "prompts (snd (snd (handleSyncChange w kbId st f syncEnabled False answer out))) =
           [Confirm (T ''confirmCancelSync'')]
       \<and> handleSyncChange w kbId st f syncEnabled False False out =
           (st, f(enabledField w \<mapsto> JBool True), [Confirm (T ''confirmCancelSync'')])
       \<and> requests (snd (snd (handleSyncChange w kbId st f syncEnabled False True out))) =
           (if missing kbId then []
            else [Request (POST (cancelUrl w) [(''kb_id'', JStr (kbStr kbId))])])
       \<and> fst (snd (handleSyncChange w kbId st f syncEnabled False True out)) = f"
  using assms
  by (cases w; cases out; cases answer) (simp_all add: op_defs handler_defs effect_defs)

theorem toggle_off_while_syncing_witness:
  "syncing \<lparr>syncing = True, syncType = JStr ''onedrive''\<rparr>
   \<and> syncType \<lparr>syncing = True, syncType = JStr ''onedrive''\<rparr> = JStr (providerTag OneDriveSync)
   \<and> prompts (snd (snd (handleSyncChange OneDriveSync (Some ''kb1'')
        \<lparr>syncing = True, syncType = JStr ''onedrive''\<rparr>
        (map_of [(''onedrive_sync_enabled'', JBool False)]) (JBool True) False False
        (Rejected None)))) =
     [Confirm (T ''confirmCancelSync'')]
   \<and> getFieldValue
       (fst (snd (handleSyncChange OneDriveSync (Some ''kb1'')
          \<lparr>syncing = True, syncType = JStr ''onedrive''\<rparr>
          (map_of [(''onedrive_sync_enabled'', JBool False)]) (JBool True) False False
          (Rejected None))))
       ''onedrive_sync_enabled'' = JBool True
   \<and> requests (snd (snd (handleSyncChange OneDriveSync (Some ''kb1'')
        \<lparr>syncing = True, syncType = JStr ''onedrive''\<rparr>
        (map_of [(''onedrive_sync_enabled'', JBool False)]) (JBool True) False False
        (Rejected None)))) = []
   \<and> requests (snd (snd (handleSyncChange OneDriveSync (Some ''kb1'')
        \<lparr>syncing = True, syncType = JStr ''onedrive''\<rparr>
        (map_of [(''onedrive_sync_enabled'', JBool False)]) (JBool True) False True
        (Rejected None)))) =
     [Request (POST ''/v1/api/kb/cancel_sync'' [(''kb_id'', JStr ''kb1'')])]"
  using toggle_off_while_syncing [of "\<lparr>syncing = True, syncType = JStr ''onedrive''\<rparr>"
      OneDriveSync "Some ''kb1''" "map_of [(''onedrive_sync_enabled'', JBool False)]"
      "JBool True" False "Rejected None"]
  by (simp add: getFieldValue_def requests_def prompts_def)

text \<open>
  C10. Switching off while the state shows a sync of another provider (\<^verbatim>\<open>syncing\<close> true,
  \<^verbatim>\<open>syncType\<close> not this widget's tag) does nothing at all: no prompt, no request, the form
  and the state are as they were, so the switch keeps the value the user gave it.
\<close>

theorem toggle_off_other_provider:
  assumes "syncing st" and "syncType st \<noteq> JStr (providerTag w)"
  shows "handleSyncChange w kbId st f syncEnabled False answer out = (st, f, [])"
  using assms by (cases w) (simp_all add: handler_defs)

theorem toggle_off_other_provider_witness:
  "syncing \<lparr>syncing = True, syncType = JStr ''onedrive''\<rparr>
   \<and> syncType \<lparr>syncing = True, syncType = JStr ''onedrive''\<rparr> \<noteq> JStr (providerTag OutlookMailSync)
   \<and> snd (snd (handleSyncChange OutlookMailSync (Some ''kb1'')
        \<lparr>syncing = True, syncType = JStr ''onedrive''\<rparr> (map_of []) (JBool True) False True
        (Rejected None))) = []"
  using toggle_off_other_provider [of "\<lparr>syncing = True, syncType = JStr ''onedrive''\<rparr>"
      OutlookMailSync "Some ''kb1''" "map_of []" "JBool True" True "Rejected None"]
  by simp




subsection \<open>What each widget shows\<close>

text \<open>
  C9. Both switches on, both widgets polling the same knowledge base: when the status
  response is \<^verbatim>\<open>{is_syncing: true, sync_type: "outlook"}\<close>, the mail-folder widget shows the
  spinner and the Cancel button, while the cloud-drive widget (either revision) shows no
  spinner and the Sync Now button, whatever either showed before.
\<close>

theorem status_per_provider:
  assumes "\<not> missing kbId"
    and "truthy (getFieldValue f ''outlook_sync_enabled'')"
    and "truthy (getFieldValue f ''onedrive_sync_enabled'')"
  shows "render OutlookMailSync
           (fst (checkSyncStatus OutlookMailSync kbId
              (Resolved \<lparr>data = JObj [(''is_syncing'', JBool True), (''sync_type'', JStr ''outlook'')],
                         message = m\<rparr>) st)) f =
           \<lparr>spinner = True, inputs = True, button = Some CancelButton\<rparr>
       \<and> render OneDriveSync
           (fst (checkSyncStatus OneDriveSync kbId
              (Resolved \<lparr>data = JObj [(''is_syncing'', JBool True), (''sync_type'', JStr ''outlook'')],
                         message = m\<rparr>) st')) f =
           \<lparr>spinner = False, inputs = True, button = Some SyncNowButton\<rparr>
       \<and> render OneDriveSyncAlt
           (fst (checkSyncStatus OneDriveSyncAlt kbId
              (Resolved \<lparr>data = JObj [(''is_syncing'', JBool True), (''sync_type'', JStr ''outlook'')],
                         message = m\<rparr>) st')) f =
           \<lparr>spinner = False, inputs = True, button = Some SyncNowButton\<rparr>"
  using assms by (simp add: op_defs render_defs)

theorem status_per_provider_witness:
  "\<not> missing (Some ''kb1'')
   \<and> truthy (getFieldValue
        (map_of [(''outlook_sync_enabled'', JBool True), (''onedrive_sync_enabled'', JBool True)])
        ''outlook_sync_enabled'')
   \<and> truthy (getFieldValue
        (map_of [(''outlook_sync_enabled'', JBool True), (''onedrive_sync_enabled'', JBool True)])
        ''onedrive_sync_enabled'')
   \<and> button (render OutlookMailSync
        (fst (checkSyncStatus OutlookMailSync (Some ''kb1'')
           (Resolved \<lparr>data = JObj [(''is_syncing'', JBool True), (''sync_type'', JStr ''outlook'')],
                      message = JUndefined\<rparr>) initialState))
        (map_of [(''outlook_sync_enabled'', JBool True), (''onedrive_sync_enabled'', JBool True)])) =
     Some CancelButton
   \<and> button (render OneDriveSync
        (fst (checkSyncStatus OneDriveSync (Some ''kb1'')
           (Resolved \<lparr>data = JObj [(''is_syncing'', JBool True), (''sync_type'', JStr ''outlook'')],
                      message = JUndefined\<rparr>) initialState))
        (map_of [(''outlook_sync_enabled'', JBool True), (''onedrive_sync_enabled'', JBool True)])) =
     Some SyncNowButton"
  using status_per_provider [of "Some ''kb1''"
      "map_of [(''outlook_sync_enabled'', JBool True), (''onedrive_sync_enabled'', JBool True)]"
      JUndefined initialState initialState]
  by (simp add: getFieldValue_def)

subsection \<open>Polling\<close>











end
